theory Spec2Isabelle
  imports Main "HOL-Library.Char_ord"
begin

section \<open>Text, as the two scripts handle it\<close>

text \<open>
  Both scripts work on Python \<open>str\<close> values. A string is modelled as a \<^typ>\<open>string\<close>, one
  \<^typ>\<open>char\<close> per code point, so the model covers the texts whose code points are below 256.
  The character classes below are Python's on that range: \<open>\s\<close> and \<open>str.strip\<close> use
  \<open>str.isspace\<close> (code points 9 to 13, 28 to 32, 133 and 160), \<open>\d\<close> is the ten ASCII
  digits, and \<open>str.lower\<close> maps \<open>A-Z\<close> and the capital letters 192 to 222 (215 apart) 32 places up.
\<close>

definition in_range :: "char \<Rightarrow> char \<Rightarrow> char \<Rightarrow> bool" where
  "in_range lo hi c \<longleftrightarrow> lo \<le> c \<and> c \<le> hi"

definition is_space :: "char \<Rightarrow> bool" where
  "is_space c \<longleftrightarrow>
     in_range (CHR 0x09) (CHR 0x0D) c \<or> in_range (CHR 0x1C) (CHR 0x20) c \<or>
     c = CHR 0x85 \<or> c = CHR 0xA0"

definition is_digit :: "char \<Rightarrow> bool" where
  "is_digit c \<longleftrightarrow> in_range (CHR ''0'') (CHR ''9'') c"

definition lower_char :: "char \<Rightarrow> char" where
  "lower_char c =
     (if in_range (CHR ''A'') (CHR ''Z'') c \<or>
         (in_range (CHR 0xC0) (CHR 0xDE) c \<and> c \<noteq> CHR 0xD7)
      then char_of (of_char c + (32 :: int)) else c)"

text \<open>
  \<open>str.upper\<close> is only applied to a currency code, which the pattern restricts to ASCII
  letters; on the other characters it is left as the identity here.
\<close>

definition upper_char :: "char \<Rightarrow> char" where
  "upper_char c =
     (if in_range (CHR ''a'') (CHR ''z'') c then char_of (of_char c - (32 :: int)) else c)"

definition lower :: "string \<Rightarrow> string" where
  "lower s = map lower_char s"

definition upper :: "string \<Rightarrow> string" where
  "upper s = map upper_char s"

definition strip :: "string \<Rightarrow> string" where
  "strip s = rev (dropWhile is_space (rev (dropWhile is_space s)))"

text \<open>\<open>s.replace(',', '')\<close>.\<close>

definition remove_commas :: "string \<Rightarrow> string" where
  "remove_commas s = filter (\<lambda>c. c \<noteq> CHR '','') s"

definition starts_with :: "string \<Rightarrow> string \<Rightarrow> bool" where
  "starts_with p s \<longleftrightarrow> take (length p) s = p"

text \<open>\<open>sub in s\<close>.\<close>

fun contains :: "string \<Rightarrow> string \<Rightarrow> bool" where
  "contains sub [] = (sub = [])"
| "contains sub (c # cs) = (starts_with sub (c # cs) \<or> contains sub cs)"

text \<open>A value used as a condition: \<open>None\<close> and the empty string are false.\<close>

definition truthy :: "string option \<Rightarrow> bool" where
  "truthy v \<longleftrightarrow> (case v of None \<Rightarrow> False | Some s \<Rightarrow> s \<noteq> [])"

section \<open>Exceptions\<close>

text \<open>
  \<open>ValueError\<close> and \<open>IndexError\<close> are the two exceptions the scripts' own statements
  raise; \<open>LibraryError\<close> stands for whatever a call into the HTML parser, the HTTP client or
  the file system raises. All of them are exceptions that \<open>except Exception\<close> catches.
  A computation that may raise returns \<open>exn + 'a\<close>.
\<close>

datatype exn = ValueError string | IndexError string | LibraryError string

definition bindE :: "exn + 'a \<Rightarrow> ('a \<Rightarrow> exn + 'b) \<Rightarrow> exn + 'b" where
  "bindE m f = (case m of Inl e \<Rightarrow> Inl e | Inr x \<Rightarrow> f x)"

section \<open>Regular expressions\<close>

text \<open>
  The patterns of the two scripts are sequences of three kinds of node: one character of a
  class (\<open>Chr\<close>), a greedy repetition of a class with a minimum count (\<open>Many\<close>, for \<open>X*\<close>
  and \<open>X+\<close>), and such a repetition inside a capturing group (\<open>Group\<close>, for \<open>(X+)\<close>).
  \<open>match_here\<close> is the backtracking matcher of \<open>re\<close> on such a sequence: a repetition
  first takes the longest run, then gives characters back one at a time until the rest of the
  pattern matches. It returns the captured groups in order. \<open>re_search\<close> tries every start
  position from the left, as \<open>pattern.search\<close> does.
\<close>

datatype node = Chr "char \<Rightarrow> bool" | Many "char \<Rightarrow> bool" nat | Group "char \<Rightarrow> bool" nat

fun backoff :: "(string \<Rightarrow> 'a option) \<Rightarrow> string \<Rightarrow> nat \<Rightarrow> nat \<Rightarrow> (nat \<times> 'a) option" where
  "backoff k s lo 0 =
     (if 0 < lo then None
      else case k (drop 0 s) of Some r \<Rightarrow> Some (0, r) | None \<Rightarrow> None)"
| "backoff k s lo (Suc n) =
     (if Suc n < lo then None
      else case k (drop (Suc n) s) of
             Some r \<Rightarrow> Some (Suc n, r)
           | None \<Rightarrow> backoff k s lo n)"

primrec match_here :: "node list \<Rightarrow> string \<Rightarrow> string list option" where
  "match_here [] s = Some []"
| "match_here (nd # nds) s =
     (case nd of
        Chr p \<Rightarrow> (case s of [] \<Rightarrow> None | c # t \<Rightarrow> if p c then match_here nds t else None)
      | Many p lo \<Rightarrow>
          map_option snd (backoff (match_here nds) s lo (length (takeWhile p s)))
      | Group p lo \<Rightarrow>
          map_option (\<lambda>(n, gs). take n s # gs)
            (backoff (match_here nds) s lo (length (takeWhile p s))))"

fun re_search :: "node list \<Rightarrow> string \<Rightarrow> string list option" where
  "re_search pat [] = match_here pat []"
| "re_search pat (c # cs) =
     (case match_here pat (c # cs) of Some gs \<Rightarrow> Some gs | None \<Rightarrow> re_search pat cs)"

text \<open>\<open>m.group(i)\<close>, for \<open>i\<close> from 1: a group the pattern does not have raises.\<close>

definition group :: "string list \<Rightarrow> nat \<Rightarrow> exn + string" where
  "group gs i = (if 1 \<le> i \<and> i \<le> length gs then Inr (gs ! (i - 1)) else Inl (IndexError ''no such group''))"

text \<open>A literal, and a literal under \<open>re.IGNORECASE\<close>; a class under \<open>re.IGNORECASE\<close>.\<close>

definition lit :: "string \<Rightarrow> node list" where
  "lit s = map (\<lambda>c. Chr (\<lambda>x. x = c)) s"

definition lit_ci :: "string \<Rightarrow> node list" where
  "lit_ci s = map (\<lambda>c. Chr (\<lambda>x. lower_char x = lower_char c)) s"

definition icase :: "(char \<Rightarrow> bool) \<Rightarrow> char \<Rightarrow> bool" where
  "icase p c \<longleftrightarrow> p c \<or> p (lower_char c) \<or> p (upper_char c)"

text \<open>Decimal digits read as a number, as \<open>int\<close> does.\<close>

definition digit_val :: "char \<Rightarrow> int" where
  "digit_val c = of_char c - of_char (CHR ''0'')"

definition int_of_digits :: "string \<Rightarrow> int" where
  "int_of_digits s = foldl (\<lambda>a c. 10 * a + digit_val c) 0 s"

text \<open>
  \<open>float\<close> on a string of ASCII digits and dots, the only strings the price patterns let
  through once the commas are removed: digits with at most one dot and at least one digit
  are accepted, anything else raises \<open>ValueError\<close>. The result is kept as the decimal the
  text denotes, \<open>mantissa / 10 ^ scale\<close>; the rounding to a binary double is not modelled.
\<close>

record decimal =
  mantissa :: int
  scale :: nat

definition py_float :: "string \<Rightarrow> exn + decimal" where
  "py_float s =
     (let ip = takeWhile is_digit s; rest = dropWhile is_digit s
      in case rest of
           [] \<Rightarrow> if ip = [] then Inl (ValueError ''could not convert string to float'')
                 else Inr \<lparr>mantissa = int_of_digits ip, scale = 0\<rparr>
         | c # fp \<Rightarrow>
             if c = CHR ''.'' \<and> list_all is_digit fp \<and> (ip \<noteq> [] \<or> fp \<noteq> [])
             then Inr \<lparr>mantissa = int_of_digits (ip @ fp), scale = length fp\<rparr>
             else Inl (ValueError ''could not convert string to float''))"

section \<open>The Local-Listing Extractor (parse-shopee.py)\<close>

text \<open>
  A listing container is a tag of the parsed document. The model keeps what the loop body
  asks the parser about it, each answer either a value or the exception the call raised:
  \<^item> \<open>strings\<close>: the text nodes below the tag, in document order
    (\<open>item.find_all(string=...)\<close> filters them with the name pattern);
  \<^item> \<open>name_div\<close>: \<open>get_text(strip=True)\<close> of the first \<open>div\<close> whose class matches
    \<open>line-clamp-2\<close>, if there is one;
  \<^item> \<open>price_span\<close>: \<open>get_text(strip=True)\<close> of the first \<open>span\<close> whose class matches
    \<open>text-base/5.*font-medium\<close>, if there is one;
  \<^item> \<open>sold_div\<close>: \<open>get_text()\<close> of the first \<open>div\<close> whose class matches
    \<open>text-shopee-black87.*text-xs\<close>, if there is one;
  \<^item> \<open>full_text\<close>: \<open>item.get_text()\<close>.
\<close>

record container =
  strings :: "exn + string list"
  name_div :: "exn + string option"
  price_span :: "exn + string option"
  sold_div :: "exn + string option"
  full_text :: "exn + string"

text \<open>One row of the result: the dictionary appended to \<open>products\<close>.\<close>

record product =
  product_name :: string
  price_rm :: string
  units_sold :: string

text \<open>\<open>LEGO.*\d{5}\<close> under \<open>re.IGNORECASE\<close>; the dot matches anything but a newline.\<close>

definition RE_NAME :: "node list" where
  "RE_NAME = lit_ci ''LEGO'' @ [Many (\<lambda>c. c \<noteq> CHR 0x0A) 0] @ replicate 5 (Chr is_digit)"

text \<open>\<open>RM\s*([0-9,.]+)\<close>\<close>

definition RE_PRICE :: "node list" where
  "RE_PRICE =
     lit ''RM'' @ [Many is_space 0, Group (\<lambda>c. is_digit c \<or> c = CHR '','' \<or> c = CHR ''.'') 1]"

text \<open>\<open>([0-9kK.+,]+)\s*sold\<close>\<close>

definition RE_SOLD :: "node list" where
  "RE_SOLD =
     [Group (\<lambda>c. is_digit c \<or> c = CHR ''k'' \<or> c = CHR ''K'' \<or> c = CHR ''.'' \<or>
                  c = CHR ''+'' \<or> c = CHR '','') 1,
      Many is_space 0] @ lit ''sold''"

text \<open>
  \<open>re.search(pattern, text)\<close> followed by \<open>group(1).strip()\<close> when it matched; \<open>old\<close> is
  the value the variable keeps when it did not.
\<close>

definition sold_in :: "string \<Rightarrow> string option \<Rightarrow> exn + string option" where
  "sold_in txt old =
     (case re_search RE_SOLD txt of
        None \<Rightarrow> Inr old
      | Some gs \<Rightarrow> bindE (group gs 1) (\<lambda>g. Inr (Some (strip g))))"

text \<open>Lines 20 to 28: the product name, or \<open>None\<close> or an empty string.\<close>

definition name_of :: "container \<Rightarrow> exn + string option" where
  "name_of item =
     bindE (strings item) (\<lambda>strs.
     let text_elements = filter (\<lambda>t. re_search RE_NAME t \<noteq> None) strs;
         product_name = (case text_elements of [] \<Rightarrow> None | t # _ \<Rightarrow> Some (strip t))
     in if \<not> truthy product_name
        then bindE (name_div item) (\<lambda>nd.
               Inr (case nd of None \<Rightarrow> product_name | Some t \<Rightarrow> Some t))
        else Inr product_name)"

text \<open>Lines 31 to 39: the price.\<close>

definition price_of :: "container \<Rightarrow> exn + string option" where
  "price_of item =
     bindE (price_span item) (\<lambda>ps.
     let price = map_option remove_commas ps
     in if \<not> truthy price
        then bindE (full_text item) (\<lambda>txt.
               case re_search RE_PRICE txt of
                 None \<Rightarrow> Inr price
               | Some gs \<Rightarrow> bindE (group gs 1) (\<lambda>g. Inr (Some (remove_commas g))))
        else Inr price)"

text \<open>Lines 42 to 52: the units sold.\<close>

definition sold_of :: "container \<Rightarrow> exn + string option" where
  "sold_of item =
     bindE (sold_div item) (\<lambda>sd.
     bindE (case sd of None \<Rightarrow> Inr None | Some t \<Rightarrow> sold_in t None) (\<lambda>sold_units.
     if \<not> truthy sold_units
     then bindE (full_text item) (\<lambda>txt. sold_in txt sold_units)
     else Inr sold_units))"

text \<open>
  The body of the \<open>try\<close> block, lines 19 to 59: the record to append, \<open>None\<close> when nothing
  is appended, or the exception raised.
\<close>

definition process_item :: "container \<Rightarrow> exn + product option" where
  "process_item item =
     bindE (name_of item) (\<lambda>product_name.
     bindE (price_of item) (\<lambda>price.
     bindE (sold_of item) (\<lambda>sold_units.
     Inr (if truthy product_name
          then Some \<lparr>product_name = the product_name,
                     price_rm = (if truthy price then the price else ''N/A''),
                     units_sold = (if truthy sold_units then the sold_units else ''N/A'')\<rparr>
          else None))))"

text \<open>
  The console. Every \<open>print\<close> of the script writes one message. A message is kept as the
  statement it comes from with the values it formats (lines 15, 61, 64, 71, 75 and 88), not
  as its text, and a console says of each message whether writing it returns (\<open>None\<close>) or
  raises. What has been written is not kept.
\<close>

datatype message =
    FoundItems nat
  | ProductLine nat string "string option" "string option"
  | ErrorLine nat exn
  | FoundFiles nat
  | ParsingFile string
  | Exported nat

type_synonym console = "message \<Rightarrow> exn option"

text \<open>
  The body of the \<open>try\<close> statement, lines 19 to 61, for the container numbered \<open>idx\<close>: the
  list \<open>products\<close> after it, and the exception that left it, if any. The print of line 61
  comes after the append, so an exception it raises leaves the record in the list.
\<close>

definition try_body ::
  "console \<Rightarrow> nat \<Rightarrow> container \<Rightarrow> product list \<Rightarrow> product list \<times> exn option" where
  "try_body emit idx item products =
     (case name_of item of
        Inl e \<Rightarrow> (products, Some e)
      | Inr name \<Rightarrow>
     (case price_of item of
        Inl e \<Rightarrow> (products, Some e)
      | Inr price \<Rightarrow>
     (case sold_of item of
        Inl e \<Rightarrow> (products, Some e)
      | Inr sold_units \<Rightarrow>
          if truthy name
          then (products @
                  [\<lparr>product_name = the name,
                    price_rm = (if truthy price then the price else ''N/A''),
                    units_sold = (if truthy sold_units then the sold_units else ''N/A'')\<rparr>],
                emit (ProductLine idx (the name) price sold_units))
          else (products, None))))"

text \<open>
  The loop over the containers of one document, lines 17 to 64. The \<open>except\<close> clause prints
  the error and the loop goes on; an exception raised by that print is not caught and leaves
  the loop and the function.
\<close>

fun parse_items ::
  "console \<Rightarrow> container list \<Rightarrow> nat \<Rightarrow> product list \<Rightarrow> exn + product list" where
  "parse_items emit [] idx products = Inr products"
| "parse_items emit (item # items) idx products =
     (case try_body emit idx item products of
        (products', None) \<Rightarrow> parse_items emit items (Suc idx) products'
      | (products', Some e) \<Rightarrow>
          (case emit (ErrorLine idx e) of
             None \<Rightarrow> parse_items emit items (Suc idx) products'
           | Some e' \<Rightarrow> Inl e'))"

text \<open>
  \<open>parse_shopee_html\<close>, from the containers that \<open>soup.find_all\<close> returned for the document.
  The containers are numbered from 1.
\<close>

definition parse_shopee_html :: "console \<Rightarrow> container list \<Rightarrow> exn + product list" where
  "parse_shopee_html emit items =
     (case emit (FoundItems (length items)) of
        Some e \<Rightarrow> Inl e
      | None \<Rightarrow> parse_items emit items 1 [])"

text \<open>
  \<open>main\<close>. An input file is its name with either the containers found in it, or the exception
  that reading or parsing it raised. Nothing in \<open>main\<close> catches an exception. The files come
  in the order of the sorted file names. The effect of \<open>main\<close> on the file system is the list
  of files it wrote, each with its rows; writing the file is taken to succeed.
\<close>

type_synonym input_file = "string \<times> (exn + container list)"

fun read_all :: "console \<Rightarrow> input_file list \<Rightarrow> product list \<Rightarrow> exn + product list" where
  "read_all emit [] all_products = Inr all_products"
| "read_all emit ((name, content) # fs) all_products =
     (case emit (ParsingFile name) of
        Some e \<Rightarrow> Inl e
      | None \<Rightarrow>
     (case content of
        Inl e \<Rightarrow> Inl e
      | Inr items \<Rightarrow>
     (case parse_shopee_html emit items of
        Inl e \<Rightarrow> Inl e
      | Inr products \<Rightarrow> read_all emit fs (all_products @ products))))"

definition fieldnames :: "string list" where
  "fieldnames = [''Product Name'', ''Price (RM)'', ''Units Sold'']"

definition row_of :: "product \<Rightarrow> string list" where
  "row_of r = [product_name r, price_rm r, units_sold r]"

record run =
  raised :: "exn option"
  written :: "(string \<times> string list list) list"

definition main :: "console \<Rightarrow> input_file list \<Rightarrow> run" where
  "main emit files =
     (case emit (FoundFiles (length files)) of
        Some e \<Rightarrow> \<lparr>raised = Some e, written = []\<rparr>
      | None \<Rightarrow>
     (case read_all emit files [] of
        Inl e \<Rightarrow> \<lparr>raised = Some e, written = []\<rparr>
      | Inr all_products \<Rightarrow>
          if all_products \<noteq> []
          then \<lparr>raised = emit (Exported (length all_products)),
                written = [(''shopee-products.csv'', fieldnames # map row_of all_products)]\<rparr>
          else \<lparr>raised = None, written = []\<rparr>))"

section \<open>The Remote Item-Price Fetcher (scrape-bricklink.py)\<close>

text \<open>
  The query parameters are the dictionary that \<open>urllib.parse.parse_qs\<close> returns for the query
  of the URL: a map from a parameter name to the list of its values.
\<close>

type_synonym params = "string \<rightharpoonup> string list"

text \<open>
  Lines 38 to 46: the loop over the keys stops at the first one that is in the dictionary, and
  reads the first of its values. Indexing an empty list raises \<open>IndexError\<close>.
\<close>

fun detect :: "string list \<Rightarrow> params \<Rightarrow> exn + (string option \<times> string option)" where
  "detect [] params = Inr (None, None)"
| "detect (key # keys) params =
     (case params key of
        None \<Rightarrow> detect keys params
      | Some vs \<Rightarrow>
          (case vs of
             [] \<Rightarrow> Inl (IndexError ''list index out of range'')
           | v # _ \<Rightarrow> Inr (Some key, Some v)))"

definition item_keys :: "string list" where
  "item_keys = [''P'', ''S'', ''M'', ''G'', ''C'', ''I'', ''O'', ''B'']"

text \<open>Lines 38 to 49: the catalog locator of a URL, or the exception raised.\<close>

definition locator :: "params \<Rightarrow> string \<Rightarrow> exn + (string \<times> string)" where
  "locator params url =
     bindE (detect item_keys params) (\<lambda>(item_type, item_id).
       if \<not> truthy item_type \<or> \<not> truthy item_id
       then Inl (ValueError (''Could not extract item type and ID from URL: '' @ url))
       else Inr (the item_type, the item_id))"

text \<open>The seven patterns, all under \<open>re.IGNORECASE\<close>.\<close>

definition count_pattern :: "string \<Rightarrow> node list" where
  "count_pattern label = lit_ci label @ [Many is_space 0, Group is_digit 1]"

definition price_pattern :: "string \<Rightarrow> node list" where
  "price_pattern label =
     lit_ci label @
     [Many is_space 0, Group (icase (in_range (CHR ''A'') (CHR ''Z''))) 1,
      Many is_space 1, Group (\<lambda>c. is_digit c \<or> c = CHR '','' \<or> c = CHR ''.'') 1]"

definition RE_TIMES_SOLD :: "node list" where
  "RE_TIMES_SOLD = count_pattern ''Times Sold:''"

definition RE_TOTAL_LOTS :: "node list" where
  "RE_TOTAL_LOTS = count_pattern ''Total Lots:''"

definition RE_TOTAL_QTY :: "node list" where
  "RE_TOTAL_QTY = count_pattern ''Total Qty:''"

definition RE_MIN_PRICE :: "node list" where
  "RE_MIN_PRICE = price_pattern ''Min Price:''"

definition RE_AVG_PRICE :: "node list" where
  "RE_AVG_PRICE = price_pattern ''Avg Price:''"

definition RE_QTY_AVG_PRICE :: "node list" where
  "RE_QTY_AVG_PRICE = price_pattern ''Qty Avg Price:''"

definition RE_MAX_PRICE :: "node list" where
  "RE_MAX_PRICE = price_pattern ''Max Price:''"

record money =
  currency :: string
  amount :: decimal

text \<open>
  The dictionary \<open>data\<close> of \<open>extract_price_box\<close>: a key that was not set is \<open>None\<close> here.
\<close>

record price_data =
  times_sold :: "int option"
  total_lots :: "int option"
  total_qty :: "int option"
  min_price :: "money option"
  avg_price :: "money option"
  qty_avg_price :: "money option"
  max_price :: "money option"

definition empty_data :: price_data where
  "empty_data =
     \<lparr>times_sold = None, total_lots = None, total_qty = None, min_price = None,
      avg_price = None, qty_avg_price = None, max_price = None\<rparr>"

text \<open>
  \<open>int(m.group(1))\<close>. The integer is unbounded, but \<open>int\<close> raises \<open>ValueError\<close> on a string
  of more than 4300 digits (the default limit of the interpreter; leading zeros count).
\<close>

definition count_of :: "string list \<Rightarrow> exn + int" where
  "count_of gs =
     bindE (group gs 1) (\<lambda>g.
       if length g > 4300
       then Inl (ValueError ''Exceeds the limit (4300 digits) for integer string conversion'')
       else Inr (int_of_digits g))"

text \<open>\<open>{'currency': m.group(1).upper(), 'amount': float(m.group(2).replace(',', ''))}\<close>\<close>

definition money_of :: "string list \<Rightarrow> exn + money" where
  "money_of gs =
     bindE (group gs 1) (\<lambda>c.
     bindE (group gs 2) (\<lambda>a.
     bindE (py_float (remove_commas a)) (\<lambda>v.
     Inr \<lparr>currency = upper c, amount = v\<rparr>)))"

text \<open>One \<open>search\<close> with the conversion of its groups when it matched.\<close>

definition field :: "node list \<Rightarrow> string \<Rightarrow> (string list \<Rightarrow> exn + 'a) \<Rightarrow> exn + 'a option" where
  "field re txt conv =
     (case re_search re txt of
        None \<Rightarrow> Inr None
      | Some gs \<Rightarrow> bindE (conv gs) (\<lambda>v. Inr (Some v)))"

text \<open>
  \<open>extract_price_box\<close>, on the text \<open>box.get_text(separator='\n', strip=True)\<close> of the box.
\<close>

definition extract_price_box :: "string \<Rightarrow> exn + price_data option" where
  "extract_price_box txt =
     (if contains ''(unavailable)'' (lower txt) then Inr None
      else
        bindE (field RE_TIMES_SOLD txt count_of) (\<lambda>ts.
        bindE (field RE_TOTAL_LOTS txt count_of) (\<lambda>tl.
        bindE (field RE_TOTAL_QTY txt count_of) (\<lambda>tq.
        bindE (field RE_MIN_PRICE txt money_of) (\<lambda>mn.
        bindE (field RE_AVG_PRICE txt money_of) (\<lambda>av.
        bindE (field RE_QTY_AVG_PRICE txt money_of) (\<lambda>qa.
        bindE (field RE_MAX_PRICE txt money_of) (\<lambda>mx.
        let data = \<lparr>times_sold = ts, total_lots = tl, total_qty = tq, min_price = mn,
                    avg_price = av, qty_avg_price = qa, max_price = mx\<rparr>
        in Inr (if data = empty_data then None else Some data)))))))))"

text \<open>
  A fetched page: what the selectors find in the parsed response. \<open>title_text\<close> and
  \<open>weight_text\<close> are the \<open>.text\<close> of the elements \<open>h1#item-name-title\<close> and
  \<open>span#item-weight-info\<close> when they exist, \<open>price_boxes\<close> the texts of the elements that
  \<open>SELECTOR_PRICE_BOXES\<close> selects, in document order. \<open>fetch\<close>, a parameter of the model,
  stands for \<open>requests.get\<close>, \<open>raise_for_status\<close> and the parse: it gives the page of a URL or
  the exception raised.
\<close>

record page =
  title_text :: "string option"
  weight_text :: "string option"
  price_boxes :: "string list"

record summary =
  item_id :: string
  item_type :: string
  title :: "string option"
  weight :: "string option"
  six_month_new :: "price_data option"
  six_month_used :: "price_data option"
  current_new :: "price_data option"
  current_used :: "price_data option"

text \<open>Lines 145 to 156: the four buckets, from the boxes found.\<close>

definition pricing_data ::
  "string list \<Rightarrow>
   exn + (price_data option \<times> price_data option \<times> price_data option \<times> price_data option)" where
  "pricing_data boxes =
     (if length boxes \<ge> 4
      then bindE (extract_price_box (boxes ! 0)) (\<lambda>b0.
           bindE (extract_price_box (boxes ! 1)) (\<lambda>b1.
           bindE (extract_price_box (boxes ! 2)) (\<lambda>b2.
           bindE (extract_price_box (boxes ! 3)) (\<lambda>b3.
           Inr (b0, b1, b2, b3)))))
      else Inr (None, None, None, None))"

text \<open>
  \<open>scrape_bricklink_item\<close>. The second component of the result is the list of the URLs
  requested, in order.
\<close>

definition scrape_bricklink_item ::
  "(string \<Rightarrow> exn + page) \<Rightarrow> params \<Rightarrow> string \<Rightarrow> (exn + summary) \<times> string list" where
  "scrape_bricklink_item fetch params url =
     (case locator params url of
        Inl e \<Rightarrow> (Inl e, [])
      | Inr (ty, ident) \<Rightarrow>
          (case fetch url of
             Inl e \<Rightarrow> (Inl e, [url])
           | Inr soup \<Rightarrow>
               let price_guide_url = ''https://www.bricklink.com/catalogPG.asp?'' @ ty @ ''='' @ ident
               in (case fetch price_guide_url of
                     Inl e \<Rightarrow> (Inl e, [url, price_guide_url])
                   | Inr price_soup \<Rightarrow>
                       (case pricing_data (price_boxes price_soup) of
                          Inl e \<Rightarrow> (Inl e, [url, price_guide_url])
                        | Inr (b0, b1, b2, b3) \<Rightarrow>
                            (Inr \<lparr>item_id = ident, item_type = ty,
                                  title = map_option strip (title_text soup),
                                  weight = map_option strip (weight_text soup),
                                  six_month_new = b0, six_month_used = b1,
                                  current_new = b2, current_used = b3\<rparr>,
                             [url, price_guide_url])))))"

section \<open>Notions used to state the properties\<close>

text \<open>The number of capturing groups of a pattern.\<close>

fun ngroups :: "node list \<Rightarrow> nat" where
  "ngroups [] = 0"
| "ngroups (Group p lo # nds) = Suc (ngroups nds)"
| "ngroups (nd # nds) = ngroups nds"

text \<open>The text \<open>s\<close> has the literal \<open>l\<close> at position \<open>i\<close>, letter case apart.\<close>

definition occurs_at :: "string \<Rightarrow> string \<Rightarrow> nat \<Rightarrow> bool" where
  "occurs_at l s i \<longleftrightarrow> i + length l \<le> length s \<and> lower (take (length l) (drop i s)) = lower l"

text \<open>A library call that returned.\<close>

definition returned :: "exn + 'a \<Rightarrow> bool" where
  "returned r \<longleftrightarrow> (case r of Inl e \<Rightarrow> False | Inr x \<Rightarrow> True)"

text \<open>
  The records of the containers of a document: one for each container whose fields are
  extracted without an exception and give a record, in document order.
\<close>

definition records :: "container list \<Rightarrow> product list" where
  "records items =
     concat (map (\<lambda>item. case process_item item of Inr (Some r) \<Rightarrow> [r] | _ \<Rightarrow> []) items)"

text \<open>The records of all the input files that could be read, in the order of the files.\<close>

definition records_of :: "input_file list \<Rightarrow> product list" where
  "records_of files =
     concat (map (\<lambda>f. case snd f of Inl e \<Rightarrow> [] | Inr items \<Rightarrow> records items) files)"

text \<open>
  The messages that have to be written for a run to go on: all but the line of a product
  (an exception there is caught) and the last line (the file is written by then).
\<close>

fun needed :: "message \<Rightarrow> bool" where
  "needed (ProductLine idx name price sold_units) = False"
| "needed (Exported n) = False"
| "needed m = True"

section \<open>Example inputs\<close>

text \<open>A container with a name and neither a price nor a number of units sold.\<close>

definition name_only :: container where
  "name_only =
     \<lparr>strings = Inr [''  LEGO Creator 31113 Race Car Transporter  ''],
      name_div = Inr None, price_span = Inr None, sold_div = Inr None,
      full_text = Inr ''  LEGO Creator 31113 Race Car Transporter  ''\<rparr>"

text \<open>A container whose price and units sold are comma-grouped numbers.\<close>

definition grouped :: container where
  "grouped =
     \<lparr>strings = Inr [''LEGO Star Wars 75192'', ''RM'', ''1,299.00'', ''1,234 sold''],
      name_div = Inr (Some ''LEGO Star Wars 75192''),
      price_span = Inr (Some ''1,299.00''),
      sold_div = Inr (Some ''1,234 sold''),
      full_text = Inr ''LEGO Star Wars 75192RM1,299.001,234 sold''\<rparr>"

text \<open>A container whose text cannot be read: \<open>item.get_text()\<close> raises.\<close>

definition broken :: container where
  "broken =
     \<lparr>strings = Inr [''LEGO City 60300''],
      name_div = Inr None, price_span = Inr None, sold_div = Inr None,
      full_text = Inl (LibraryError ''maximum recursion depth exceeded'')\<rparr>"

text \<open>
  Three consoles: one that takes every message, one on which the line of a product cannot be
  written, and one on which the line of an error cannot be written.
\<close>

definition quiet :: console where
  "quiet m = None"

definition no_product_lines :: console where
  "no_product_lines m =
     (case m of
        ProductLine idx name price sold_units \<Rightarrow> Some (LibraryError ''UnicodeEncodeError'')
      | _ \<Rightarrow> None)"

definition no_error_lines :: console where
  "no_error_lines m =
     (case m of ErrorLine idx e \<Rightarrow> Some (LibraryError ''BrokenPipeError'') | _ \<Rightarrow> None)"

text \<open>The dictionaries \<open>parse_qs\<close> returns for the queries \<open>S=31113-1\<close> and \<open>M=sw0001&S=75192-1\<close>.\<close>

definition params_S :: params where
  "params_S = [''S'' \<mapsto> [''31113-1'']]"

definition params_MS :: params where
  "params_MS = [''M'' \<mapsto> [''sw0001''], ''S'' \<mapsto> [''75192-1'']]"

definition example_url :: string where
  "example_url = ''https://www.bricklink.com/v2/catalog/catalogitem.page?S=31113-1''"

text \<open>A site whose price guide page has three boxes only.\<close>

definition three_boxes :: "string \<Rightarrow> exn + page" where
  "three_boxes u =
     (if u = example_url
      then Inr \<lparr>title_text = Some '' Race Car Transporter '', weight_text = Some ''469.3g'',
                price_boxes = []\<rparr>
      else Inr \<lparr>title_text = None, weight_text = None,
                price_boxes = [''Times Sold: 12'', ''Times Sold: 3'', ''Total Lots: 5'']\<rparr>)"

text \<open>The dictionary for the query \<open>X=1\<close>, which has none of the eight parameters.\<close>

definition params_X :: params where
  "params_X = [''X'' \<mapsto> [''1'']]"

text \<open>
  Every place where the text has \<open>Avg Price:\<close>, letter case apart, comes right after
  \<open>Qty \<close>: the text has no \<open>Avg Price:\<close> of its own.
\<close>

definition avg_inside_qty :: "string \<Rightarrow> bool" where
  "avg_inside_qty s \<longleftrightarrow>
     list_all (\<lambda>i. occurs_at ''Avg Price:'' s i \<longrightarrow> 4 \<le> i \<and> occurs_at ''Qty '' s (i - 4))
       [0..<length s]"

text \<open>A box with the quantity average price and no average price of its own.\<close>

definition qty_avg_box :: string where
  "qty_avg_box = ''Total Qty: 7'' @ [CHR 0x0A] @ ''Qty Avg Price: USD 1,234.50''"

text \<open>
  Three more boxes with a quantity average price and no \<open>Avg Price:\<close> in that letter case
  elsewhere: one with the marker, one whose minimum price is not a number, and one with an
  average price written in lower case.
\<close>

definition qty_avg_unavailable :: string where
  "qty_avg_unavailable = ''Qty Avg Price: USD 5.00'' @ [CHR 0x0A] @ ''(unavailable)''"

definition qty_avg_bad_min :: string where
  "qty_avg_bad_min = ''Min Price: USD 1.2.3'' @ [CHR 0x0A] @ ''Qty Avg Price: USD 5.00''"

definition qty_avg_lower_avg :: string where
  "qty_avg_lower_avg = ''avg price: EUR 6.00'' @ [CHR 0x0A] @ ''Qty Avg Price: USD 5.00''"

section \<open>Basic facts\<close>

lemma bindE_Inl: "bindE (Inl e) f = Inl e"
  by (simp add: bindE_def)

lemma bindE_Inr: "bindE (Inr x) f = f x"
  by (simp add: bindE_def)


subsection \<open>The matcher\<close>

lemma backoff_bound:
  "backoff k s lo n = Some (m, r) \<Longrightarrow> lo \<le> m \<and> m \<le> n \<and> k (drop m s) = Some r"
  by (induction n) (auto split: if_splits option.splits)

lemma backoff_cont: "backoff k s lo n = Some (m, r) \<Longrightarrow> k (drop m s) = Some r"
  by (drule backoff_bound) simp

lemma match_here_Chr:
  "match_here (Chr p # nds) s =
     (case s of [] \<Rightarrow> None | c # t \<Rightarrow> if p c then match_here nds t else None)"
  by simp

lemma match_here_Many:
  "match_here (Many p lo # nds) s =
     map_option snd (backoff (match_here nds) s lo (length (takeWhile p s)))"
  by simp

lemma match_here_Group:
  "match_here (Group p lo # nds) s =
     map_option (\<lambda>(n, gs). take n s # gs)
       (backoff (match_here nds) s lo (length (takeWhile p s)))"
  by simp

text \<open>A match returns one string for each group of the pattern.\<close>

lemma match_here_ngroups: "match_here pat s = Some gs \<Longrightarrow> length gs = ngroups pat"
proof (induction pat arbitrary: s gs)
  case Nil
  then show ?case by simp
next
  case (Cons nd nds)
  show ?case
  proof (cases nd)
    case (Chr p)
    from Cons.prems obtain c t where "s = c # t" "match_here nds t = Some gs"
      unfolding Chr match_here_Chr by (cases s) (simp_all split: if_splits)
    with Cons.IH Chr show ?thesis by simp
  next
    case (Many p lo)
    from Cons.prems obtain m
      where "backoff (match_here nds) s lo (length (takeWhile p s)) = Some (m, gs)"
      unfolding Many match_here_Many
      by (cases "backoff (match_here nds) s lo (length (takeWhile p s))") auto
    then have "match_here nds (drop m s) = Some gs" by (rule backoff_cont)
    with Cons.IH Many show ?thesis by simp
  next
    case (Group p lo)
    from Cons.prems obtain m gs'
      where b: "backoff (match_here nds) s lo (length (takeWhile p s)) = Some (m, gs')"
        and g: "gs = take m s # gs'"
      unfolding Group match_here_Group
      by (cases "backoff (match_here nds) s lo (length (takeWhile p s))") auto
    from b have "match_here nds (drop m s) = Some gs'" by (rule backoff_cont)
    with Cons.IH Group g show ?thesis by simp
  qed
qed

lemma re_search_ngroups: "re_search pat s = Some gs \<Longrightarrow> length gs = ngroups pat"
proof (induction s)
  case Nil
  then show ?case by (simp add: match_here_ngroups)
next
  case (Cons c cs)
  then show ?case by (cases "match_here pat (c # cs)") (simp_all add: match_here_ngroups)
qed

lemma ngroups_append: "ngroups (xs @ ys) = ngroups xs + ngroups ys"
  by (induction xs rule: ngroups.induct) simp_all

lemma ngroups_lit: "ngroups (lit l) = 0"
  by (induction l) (simp_all add: lit_def)

lemma ngroups_lit_ci: "ngroups (lit_ci l) = 0"
  by (induction l) (simp_all add: lit_ci_def)

lemma ngroups_RE_PRICE: "ngroups RE_PRICE = 1"
  by (simp add: RE_PRICE_def ngroups_append ngroups_lit)

lemma ngroups_RE_SOLD: "ngroups RE_SOLD = 1"
  by (simp add: RE_SOLD_def ngroups_append ngroups_lit)

lemma ngroups_count_pattern: "ngroups (count_pattern l) = 1"
  by (simp add: count_pattern_def ngroups_append ngroups_lit_ci)

lemma ngroups_price_pattern: "ngroups (price_pattern l) = 2"
  by (simp add: price_pattern_def ngroups_append ngroups_lit_ci)

lemma group_1: "length gs = 1 \<Longrightarrow> \<exists>g. group gs 1 = Inr g"
  by (simp add: group_def)

subsection \<open>The fields of a listing container\<close>

lemma sold_in_returns: "\<exists>v. sold_in txt old = Inr v"
proof (cases "re_search RE_SOLD txt")
  case None
  then show ?thesis by (simp add: sold_in_def)
next
  case (Some gs)
  then have "length gs = 1" using re_search_ngroups ngroups_RE_SOLD by fastforce
  then obtain g where "group gs 1 = Inr g" using group_1 by auto
  with Some show ?thesis by (simp add: sold_in_def bindE_Inr)
qed

lemma name_of_returns:
  assumes "strings item = Inr strs" and "name_div item = Inr nd"
  shows "\<exists>v. name_of item = Inr v"
  using assms by (simp add: name_of_def bindE_Inr Let_def)

lemma price_of_returns:
  assumes "price_span item = Inr ps" and "full_text item = Inr txt"
  shows "\<exists>v. price_of item = Inr v"
proof (cases "re_search RE_PRICE txt")
  case None
  with assms show ?thesis by (simp add: price_of_def bindE_Inr Let_def)
next
  case (Some gs)
  then have "length gs = 1" using re_search_ngroups ngroups_RE_PRICE by fastforce
  then obtain g where "group gs 1 = Inr g" using group_1 by auto
  with Some assms show ?thesis by (simp add: price_of_def bindE_Inr Let_def)
qed

lemma sold_of_returns:
  assumes "sold_div item = Inr sd" and "full_text item = Inr txt"
  shows "\<exists>v. sold_of item = Inr v"
proof -
  obtain v0 where v0: "(case sd of None \<Rightarrow> Inr None | Some t \<Rightarrow> sold_in t None) = Inr v0"
    using sold_in_returns by (cases sd) auto
  obtain v1 where v1: "sold_in txt v0 = Inr v1"
    using sold_in_returns by blast
  from assms v0 v1 show ?thesis
    by (simp add: sold_of_def bindE_Inr)
qed


section \<open>The Local-Listing Extractor: properties\<close>

text \<open>
  Claim C1. When no call into the parser raises while a container is processed, the container
  gives a record exactly when a name was resolved (the name is neither \<open>None\<close> nor empty), and
  in that record a price or a number of units sold that was not found is the string \<open>N/A\<close>.
\<close>

theorem C1_record_iff_name:
  assumes "strings item = Inr strs" and "name_div item = Inr nd"
    and "price_span item = Inr ps" and "sold_div item = Inr sd"
    and "full_text item = Inr body"
  shows "\<exists>name price sold.
           name_of item = Inr name \<and> price_of item = Inr price \<and> sold_of item = Inr sold \<and>
           process_item item =
             Inr (if truthy name
                  then Some \<lparr>product_name = the name,
                             price_rm = (if truthy price then the price else ''N/A''),
                             units_sold = (if truthy sold then the sold else ''N/A'')\<rparr>
                  else None)"
proof -
  obtain name where n: "name_of item = Inr name"
    using name_of_returns[OF assms(1,2)] by blast
  obtain price where p: "price_of item = Inr price"
    using price_of_returns[OF assms(3,5)] by blast
  obtain sold where s: "sold_of item = Inr sold"
    using sold_of_returns[OF assms(4,5)] by blast
  from n p s have "process_item item =
             Inr (if truthy name
                  then Some \<lparr>product_name = the name,
                             price_rm = (if truthy price then the price else ''N/A''),
                             units_sold = (if truthy sold then the sold else ''N/A'')\<rparr>
                  else None)"
    by (simp add: process_item_def bindE_Inr)
  with n p s show ?thesis by blast
qed

theorem C1_record_iff_name_witness:
  "strings name_only = Inr [''  LEGO Creator 31113 Race Car Transporter  ''] \<and>
   name_div name_only = Inr None \<and> price_span name_only = Inr None \<and>
   sold_div name_only = Inr None \<and>
   full_text name_only = Inr ''  LEGO Creator 31113 Race Car Transporter  '' \<and>
   process_item name_only =
     Inr (Some \<lparr>product_name = ''LEGO Creator 31113 Race Car Transporter'',
                price_rm = ''N/A'', units_sold = ''N/A''\<rparr>)"
proof -
  have h1: "strings name_only = Inr [''  LEGO Creator 31113 Race Car Transporter  '']"
    and h2: "name_div name_only = Inr None"
    and h3: "price_span name_only = Inr None"
    and h4: "sold_div name_only = Inr None"
    and h5: "full_text name_only = Inr ''  LEGO Creator 31113 Race Car Transporter  ''"
    by (simp_all add: name_only_def)
  have n: "name_of name_only = Inr (Some ''LEGO Creator 31113 Race Car Transporter'')"
    by code_simp
  have p: "price_of name_only = Inr None" by code_simp
  have s: "sold_of name_only = Inr None" by code_simp
  from C1_record_iff_name[OF h1 h2 h3 h4 h5] n p s
  have "process_item name_only =
     Inr (Some \<lparr>product_name = ''LEGO Creator 31113 Race Car Transporter'',
                price_rm = ''N/A'', units_sold = ''N/A''\<rparr>)"
    by (auto simp: truthy_def)
  with h1 h2 h3 h4 h5 show ?thesis by simp
qed





subsection \<open>The loop over the containers and the files\<close>

lemma records_Nil: "records [] = []"
  by (simp add: records_def)

lemma records_Cons: "records (item # items) = records [item] @ records items"
  by (simp add: records_def)

lemma records_append: "records (xs @ ys) = records xs @ records ys"
  by (simp add: records_def)

lemma records_raise: "process_item c = Inl e \<Longrightarrow> records [c] = []"
  by (simp add: records_def)

lemma records_of_Nil: "records_of [] = []"
  by (simp add: records_of_def)

lemma records_of_Inr: "records_of ((name, Inr items) # fs) = records items @ records_of fs"
  by (simp add: records_of_def)

lemma records_of_Inl: "records_of ((name, Inl e) # fs) = records_of fs"
  by (simp add: records_of_def)

lemma records_of_append: "records_of (fs1 @ fs2) = records_of fs1 @ records_of fs2"
  by (simp add: records_of_def)

text \<open>An exception before the append leaves \<open>products\<close> as it was.\<close>

lemma try_body_raise:
  assumes "process_item item = Inl e"
  shows "try_body emit idx item products = (products, Some e)"
proof (cases "name_of item")
  case (Inl e1)
  with assms show ?thesis by (simp add: process_item_def try_body_def bindE_Inl)
next
  case n: (Inr name)
  show ?thesis
  proof (cases "price_of item")
    case (Inl e2)
    with assms n show ?thesis by (simp add: process_item_def try_body_def bindE_Inl bindE_Inr)
  next
    case p: (Inr price)
    show ?thesis
    proof (cases "sold_of item")
      case (Inl e3)
      with assms n p show ?thesis
        by (simp add: process_item_def try_body_def bindE_Inl bindE_Inr)
    next
      case (Inr sold_units)
      with assms n p show ?thesis by (simp add: process_item_def bindE_Inr)
    qed
  qed
qed

text \<open>Whatever the console does, the body appends the record of the container, if it has one.\<close>

lemma fst_try_body: "fst (try_body emit idx item products) = products @ records [item]"
proof (cases "process_item item")
  case (Inl e)
  then show ?thesis by (simp add: try_body_raise records_raise)
next
  case (Inr v)
  then obtain name where n: "name_of item = Inr name"
    by (cases "name_of item") (simp_all add: process_item_def bindE_Inl)
  from Inr n obtain price where p: "price_of item = Inr price"
    by (cases "price_of item") (simp_all add: process_item_def bindE_Inl bindE_Inr)
  from Inr n p obtain sold_units where s: "sold_of item = Inr sold_units"
    by (cases "sold_of item") (simp_all add: process_item_def bindE_Inl bindE_Inr)
  from n p s show ?thesis
    by (simp add: try_body_def process_item_def records_def bindE_Inr)
qed

lemma parse_items_needed:
  assumes "\<forall>m. needed m \<longrightarrow> emit m = None"
  shows "parse_items emit items idx products = Inr (products @ records items)"
proof (induction items arbitrary: idx products)
  case Nil
  then show ?case by (simp add: records_Nil)
next
  case (Cons item items)
  obtain products' caught where b: "try_body emit idx item products = (products', caught)"
    by (cases "try_body emit idx item products") auto
  with fst_try_body[of emit idx item products]
  have p: "products' = products @ records [item]" by simp
  have r: "parse_items emit items (Suc idx) products' = Inr (products @ records (item # items))"
    using Cons.IH[of "Suc idx" products'] p records_Cons[of item items] by simp
  show ?case
  proof (cases caught)
    case None
    with b r show ?thesis by simp
  next
    case (Some e)
    from assms have "emit (ErrorLine idx e) = None" by simp
    with Some b r show ?thesis by simp
  qed
qed

lemma parse_items_no_records:
  "records items = [] \<Longrightarrow> parse_items emit items idx products = Inr ps \<Longrightarrow> ps = products"
proof (induction items arbitrary: idx products)
  case Nil
  then show ?case by simp
next
  case (Cons item items)
  from Cons.prems(1) records_Cons[of item items]
  have e1: "records [item] = []" and e2: "records items = []" by simp_all
  obtain products' caught where b: "try_body emit idx item products = (products', caught)"
    by (cases "try_body emit idx item products") auto
  with fst_try_body[of emit idx item products] e1
  have p: "products' = products" by simp
  show ?case
  proof (cases caught)
    case None
    with b p Cons.prems(2) have "parse_items emit items (Suc idx) products = Inr ps" by simp
    from Cons.IH[OF e2 this] show ?thesis .
  next
    case (Some e)
    show ?thesis
    proof (cases "emit (ErrorLine idx e)")
      case None
      with Some b p Cons.prems(2) have "parse_items emit items (Suc idx) products = Inr ps"
        by simp
      from Cons.IH[OF e2 this] show ?thesis .
    next
      case (Some e')
      with \<open>caught = Some e\<close> b Cons.prems(2) show ?thesis by simp
    qed
  qed
qed

lemma parse_shopee_html_needed:
  assumes "\<forall>m. needed m \<longrightarrow> emit m = None"
  shows "parse_shopee_html emit items = Inr (records items)"
proof -
  from assms have "emit (FoundItems (length items)) = None" by simp
  with parse_items_needed[OF assms, of items 1 "[]"] show ?thesis
    by (simp add: parse_shopee_html_def)
qed

lemma parse_shopee_html_no_records:
  assumes "records items = []" and "parse_shopee_html emit items = Inr ps"
  shows "ps = []"
proof (cases "emit (FoundItems (length items))")
  case None
  with assms(2) have "parse_items emit items 1 [] = Inr ps" by (simp add: parse_shopee_html_def)
  from parse_items_no_records[OF assms(1) this] show ?thesis .
next
  case (Some e)
  with assms(2) show ?thesis by (simp add: parse_shopee_html_def)
qed

lemma read_all_needed:
  assumes "\<forall>m. needed m \<longrightarrow> emit m = None" and "\<forall>f\<in>set files. returned (snd f)"
  shows "read_all emit files acc = Inr (acc @ records_of files)"
  using assms(2)
proof (induction files arbitrary: acc)
  case Nil
  then show ?case by (simp add: records_of_Nil)
next
  case (Cons f fs)
  obtain name content where f: "f = (name, content)" by (cases f) auto
  with Cons.prems obtain items where c: "content = Inr items"
    by (cases content) (simp_all add: returned_def)
  from assms(1) have p: "emit (ParsingFile name) = None" by simp
  from Cons.prems have "\<forall>f\<in>set fs. returned (snd f)" by simp
  from Cons.IH[OF this, of "acc @ records items"] f c p
    parse_shopee_html_needed[OF assms(1), of items]
  show ?case by (simp add: records_of_Inr)
qed

lemma read_all_no_records:
  "records_of files = [] \<Longrightarrow> read_all emit files acc = Inr ps \<Longrightarrow> ps = acc"
proof (induction files arbitrary: acc)
  case Nil
  then show ?case by simp
next
  case (Cons f fs)
  obtain name content where f: "f = (name, content)" by (cases f) auto
  from Cons.prems(2) f have p: "emit (ParsingFile name) = None"
    by (cases "emit (ParsingFile name)") simp_all
  from Cons.prems(2) f p obtain items where c: "content = Inr items"
    by (cases content) simp_all
  from Cons.prems(2) f p c obtain products where h: "parse_shopee_html emit items = Inr products"
    by (cases "parse_shopee_html emit items") simp_all
  from Cons.prems(1) f c have e1: "records items = []" and e2: "records_of fs = []"
    by (simp_all add: records_of_Inr)
  from parse_shopee_html_no_records[OF e1 h] have "products = []" .
  with Cons.prems(2) f p c h have "read_all emit fs acc = Inr ps" by simp
  from Cons.IH[OF e2 this] show ?case .
qed

text \<open>A run on a console that takes the needed messages, all files being read.\<close>

lemma main_needed:
  assumes "\<forall>m. needed m \<longrightarrow> emit m = None" and "\<forall>f\<in>set files. returned (snd f)"
  shows "main emit files =
           (if records_of files = [] then \<lparr>raised = None, written = []\<rparr>
            else \<lparr>raised = emit (Exported (length (records_of files))),
                  written = [(''shopee-products.csv'',
                              [''Product Name'', ''Price (RM)'', ''Units Sold''] #
                              map row_of (records_of files))]\<rparr>)"
proof -
  from assms(1) have "emit (FoundFiles (length files)) = None" by simp
  with read_all_needed[OF assms, of "[]"] show ?thesis
    by (simp add: main_def fieldnames_def)
qed

text \<open>
  Claim C6, as amended. An exception raised while the fields of a container are extracted,
  before anything is appended, is caught and the container gives no record. When the console
  takes every message other than the line of a product and the last line, and the other
  files can be read, all the containers of all the files are processed: the document gives
  the records of the containers before and after that one, and the run writes the records
  of all the files, in order, as if the container were not there.
\<close>

theorem C6_exception_before_append_skips_container:
  assumes "process_item c = Inl e"
    and "\<forall>m. needed m \<longrightarrow> emit m = None"
    and "\<forall>f\<in>set (fs1 @ fs2). returned (snd f)"
  shows "try_body emit idx c products = (products, Some e) \<and>
         parse_shopee_html emit (pre @ c # post) = Inr (records pre @ records post) \<and>
         main emit (fs1 @ (name, Inr (pre @ c # post)) # fs2) =
           (let recs = records_of fs1 @ records pre @ records post @ records_of fs2
            in if recs = [] then \<lparr>raised = None, written = []\<rparr>
               else \<lparr>raised = emit (Exported (length recs)),
                     written = [(''shopee-products.csv'',
                                 [''Product Name'', ''Price (RM)'', ''Units Sold''] #
                                 map row_of recs)]\<rparr>)"
proof -
  have a: "try_body emit idx c products = (products, Some e)"
    using assms(1) by (rule try_body_raise)
  have r: "records (pre @ c # post) = records pre @ records post"
    using records_append[of pre "c # post"] records_Cons[of c post] records_raise[OF assms(1)]
    by simp
  have b: "parse_shopee_html emit (pre @ c # post) = Inr (records pre @ records post)"
    using parse_shopee_html_needed[OF assms(2), of "pre @ c # post"] r by simp
  have f: "\<forall>f\<in>set (fs1 @ (name, Inr (pre @ c # post)) # fs2). returned (snd f)"
    using assms(3) by (simp add: returned_def)
  have q: "records_of (fs1 @ (name, Inr (pre @ c # post)) # fs2) =
             records_of fs1 @ records pre @ records post @ records_of fs2"
    using r by (simp add: records_of_append records_of_Inr)
  from main_needed[OF assms(2) f] q
  have "main emit (fs1 @ (name, Inr (pre @ c # post)) # fs2) =
           (let recs = records_of fs1 @ records pre @ records post @ records_of fs2
            in if recs = [] then \<lparr>raised = None, written = []\<rparr>
               else \<lparr>raised = emit (Exported (length recs)),
                     written = [(''shopee-products.csv'',
                                 [''Product Name'', ''Price (RM)'', ''Units Sold''] #
                                 map row_of recs)]\<rparr>)"
    by (simp add: Let_def)
  with a b show ?thesis by simp
qed

theorem C6_exception_before_append_skips_container_witness:
  "process_item broken = Inl (LibraryError ''maximum recursion depth exceeded'') \<and>
   try_body no_product_lines 2 broken [] =
     ([], Some (LibraryError ''maximum recursion depth exceeded'')) \<and>
   parse_shopee_html no_product_lines ([grouped] @ broken # [name_only]) =
     Inr [\<lparr>product_name = ''LEGO Star Wars 75192'', price_rm = ''1299.00'',
           units_sold = ''1,234''\<rparr>,
          \<lparr>product_name = ''LEGO Creator 31113 Race Car Transporter'', price_rm = ''N/A'',
           units_sold = ''N/A''\<rparr>] \<and>
   main no_product_lines
     ([(''shop-listing-1.txt'', Inr [name_only])] @
      (''shop-listing-2.txt'', Inr ([grouped] @ broken # [name_only])) #
      [(''shop-listing-3.txt'', Inr [grouped])]) =
     \<lparr>raised = None,
      written = [(''shopee-products.csv'',
                  [[''Product Name'', ''Price (RM)'', ''Units Sold''],
                   [''LEGO Creator 31113 Race Car Transporter'', ''N/A'', ''N/A''],
                   [''LEGO Star Wars 75192'', ''1299.00'', ''1,234''],
                   [''LEGO Creator 31113 Race Car Transporter'', ''N/A'', ''N/A''],
                   [''LEGO Star Wars 75192'', ''1299.00'', ''1,234'']])]\<rparr>"
proof -
  have h: "process_item broken = Inl (LibraryError ''maximum recursion depth exceeded'')"
    by code_simp
  have k: "\<forall>m. needed m \<longrightarrow> no_product_lines m = None"
  proof (intro allI impI)
    fix m assume "needed m"
    then show "no_product_lines m = None" by (cases m) (simp_all add: no_product_lines_def)
  qed
  have f: "\<forall>f\<in>set ([(''shop-listing-1.txt'', Inr [name_only])] @
                     [(''shop-listing-3.txt'', Inr [grouped])]). returned (snd f)"
    by (simp add: returned_def)
  have g: "records [grouped] =
     [\<lparr>product_name = ''LEGO Star Wars 75192'', price_rm = ''1299.00'', units_sold = ''1,234''\<rparr>]"
    by code_simp
  have n: "records [name_only] =
     [\<lparr>product_name = ''LEGO Creator 31113 Race Car Transporter'', price_rm = ''N/A'',
        units_sold = ''N/A''\<rparr>]"
    by code_simp
  have x: "\<And>n. no_product_lines (Exported n) = None" by (simp add: no_product_lines_def)
  from C6_exception_before_append_skips_container[OF h k f, of 2 "[]" "[grouped]" "[name_only]"
      "''shop-listing-2.txt''"] h g n x
  show ?thesis by (simp add: records_of_def row_of_def Let_def)
qed

text \<open>
  Claim C6 as stated fails in two ways. On a console where the line of a product cannot be
  written, the print of line 61 raises after the append: the exception is caught, and the
  record of the container stays. On a console where the line of an error cannot be written,
  the print of line 64 raises in the \<open>except\<close> clause, and the container after the broken one
  is not processed.
\<close>

theorem C6_caught_but_kept_or_aborted:
  "try_body no_product_lines 1 name_only [] =
     ([\<lparr>product_name = ''LEGO Creator 31113 Race Car Transporter'', price_rm = ''N/A'',
        units_sold = ''N/A''\<rparr>], Some (LibraryError ''UnicodeEncodeError'')) \<and>
   parse_shopee_html no_product_lines [name_only] =
     Inr [\<lparr>product_name = ''LEGO Creator 31113 Race Car Transporter'', price_rm = ''N/A'',
           units_sold = ''N/A''\<rparr>] \<and>
   process_item broken = Inl (LibraryError ''maximum recursion depth exceeded'') \<and>
   parse_shopee_html no_error_lines [broken, name_only] = Inl (LibraryError ''BrokenPipeError'')"
  by code_simp

text \<open>
  Claim C9. A run in which no record is extracted writes no file, whatever the console does.
  A run that reads all its files, on a console that takes the needed messages, and extracts
  at least one record writes \<open>shopee-products.csv\<close> once, the header of three columns first,
  then one row for each record; only the last print can still raise.
\<close>

theorem C9_csv_only_with_records:
  "(records_of files = [] \<longrightarrow> written (main emit files) = []) \<and>
   ((\<forall>f\<in>set files. returned (snd f)) \<and> (\<forall>m. needed m \<longrightarrow> emit m = None) \<and>
    records_of files \<noteq> [] \<longrightarrow>
      main emit files =
        \<lparr>raised = emit (Exported (length (records_of files))),
         written = [(''shopee-products.csv'',
                     [''Product Name'', ''Price (RM)'', ''Units Sold''] #
                     map row_of (records_of files))]\<rparr>)"
proof (intro conjI impI)
  assume z: "records_of files = []"
  show "written (main emit files) = []"
  proof (cases "emit (FoundFiles (length files))")
    case (Some e)
    then show ?thesis by (simp add: main_def)
  next
    case None
    show ?thesis
    proof (cases "read_all emit files []")
      case (Inl e)
      with None show ?thesis by (simp add: main_def)
    next
      case (Inr ps)
      from read_all_no_records[OF z Inr] have "ps = []" .
      with None Inr show ?thesis by (simp add: main_def)
    qed
  qed
next
  assume a: "(\<forall>f\<in>set files. returned (snd f)) \<and> (\<forall>m. needed m \<longrightarrow> emit m = None) \<and>
    records_of files \<noteq> []"
  then have "\<forall>m. needed m \<longrightarrow> emit m = None" and "\<forall>f\<in>set files. returned (snd f)"
    by blast+
  from main_needed[OF this] a
  show "main emit files =
        \<lparr>raised = emit (Exported (length (records_of files))),
         written = [(''shopee-products.csv'',
                     [''Product Name'', ''Price (RM)'', ''Units Sold''] #
                     map row_of (records_of files))]\<rparr>"
    by simp
qed

theorem C9_csv_only_with_records_witness:
  "records_of [(''shop-listing-1.txt'', Inr [broken]), (''shop-listing-2.txt'', Inr [])] = [] \<and>
   written (main quiet [(''shop-listing-1.txt'', Inr [broken]), (''shop-listing-2.txt'', Inr [])]) = [] \<and>
   returned (Inr [name_only] :: exn + container list) \<and>
   returned (Inr [broken] :: exn + container list) \<and>
   records_of [(''shop-listing-1.txt'', Inr [name_only]), (''shop-listing-2.txt'', Inr [broken])] \<noteq> [] \<and>
   main quiet [(''shop-listing-1.txt'', Inr [name_only]), (''shop-listing-2.txt'', Inr [broken])] =
     \<lparr>raised = None,
      written = [(''shopee-products.csv'',
                  [[''Product Name'', ''Price (RM)'', ''Units Sold''],
                   [''LEGO Creator 31113 Race Car Transporter'', ''N/A'', ''N/A'']])]\<rparr>"
proof -
  have z: "records_of [(''shop-listing-1.txt'', Inr [broken]), (''shop-listing-2.txt'', Inr [])] = []"
    by code_simp
  have r: "records_of [(''shop-listing-1.txt'', Inr [name_only]), (''shop-listing-2.txt'', Inr [broken])] =
     [\<lparr>product_name = ''LEGO Creator 31113 Race Car Transporter'', price_rm = ''N/A'',
        units_sold = ''N/A''\<rparr>]"
    by code_simp
  have a: "\<forall>f\<in>set [(''shop-listing-1.txt'', Inr [name_only]), (''shop-listing-2.txt'', Inr [broken])].
             returned (snd f)"
    by (simp add: returned_def)
  have k: "\<forall>m. needed m \<longrightarrow> quiet m = None" by (simp add: quiet_def)
  from C9_csv_only_with_records[of "[(''shop-listing-1.txt'', Inr [broken]), (''shop-listing-2.txt'', Inr [])]" quiet] z
  have w: "written (main quiet [(''shop-listing-1.txt'', Inr [broken]), (''shop-listing-2.txt'', Inr [])]) = []"
    by simp
  from C9_csv_only_with_records[of "[(''shop-listing-1.txt'', Inr [name_only]), (''shop-listing-2.txt'', Inr [broken])]" quiet] a k r
  have "main quiet [(''shop-listing-1.txt'', Inr [name_only]), (''shop-listing-2.txt'', Inr [broken])] =
     \<lparr>raised = None,
      written = [(''shopee-products.csv'',
                  [[''Product Name'', ''Price (RM)'', ''Units Sold''],
                   [''LEGO Creator 31113 Race Car Transporter'', ''N/A'', ''N/A'']])]\<rparr>"
    by (simp add: row_of_def quiet_def)
  with z w r show ?thesis by (simp add: returned_def)
qed

section \<open>The Remote Item-Price Fetcher: properties\<close>

subsection \<open>The catalog locator\<close>

lemma detect_first:
  assumes "i < length keys" and "params (keys ! i) = Some (v # vs)"
    and "\<forall>j<i. params (keys ! j) = None"
  shows "detect keys params = Inr (Some (keys ! i), Some v)"
  using assms
proof (induction keys arbitrary: i)
  case Nil
  then show ?case by simp
next
  case (Cons key keys)
  show ?case
  proof (cases i)
    case 0
    with Cons.prems show ?thesis by simp
  next
    case (Suc i')
    from Cons.prems(3) Suc have k: "params key = None" by auto
    from Cons.prems Suc have "i' < length keys" "params (keys ! i') = Some (v # vs)"
      "\<forall>j<i'. params (keys ! j) = None" by auto
    from Cons.IH[OF this] k Suc show ?thesis by simp
  qed
qed

lemma detect_none:
  assumes "\<forall>k\<in>set keys. params k = None"
  shows "detect keys params = Inr (None, None)"
  using assms by (induction keys) simp_all

lemma item_keys_nonempty: "k \<in> set item_keys \<Longrightarrow> k \<noteq> []"
  by (auto simp: item_keys_def)

text \<open>
  Claim C3. The keys are tried in the order P, S, M, G, C, I, O, B, and the first one that is
  in the dictionary gives the locator: its kind is the key and its id the first value of the
  key. (A value list from \<open>parse_qs\<close> is never empty and holds no empty string, since blank
  values are dropped; this is what the second and third hypotheses say.) The example after it is the
  dictionary of the query \<open>S=31113-1\<close>, with the locator \<open>(S, 31113-1)\<close>, and a dictionary
  with both M and S, where S, the earlier key, is chosen.
\<close>

theorem C3_first_key_in_priority_order:
  assumes "i < length item_keys" and "params (item_keys ! i) = Some (v # vs)" and "v \<noteq> []"
    and "\<forall>j<i. params (item_keys ! j) = None"
  shows "item_keys = [''P'', ''S'', ''M'', ''G'', ''C'', ''I'', ''O'', ''B''] \<and>
         locator params url = Inr (item_keys ! i, v)"
proof -
  from assms(1) have "item_keys ! i \<noteq> []" using item_keys_nonempty nth_mem by blast
  with detect_first[OF assms(1,2,4)] assms(3) show ?thesis
    by (simp add: locator_def bindE_Inr truthy_def item_keys_def)
qed

theorem C3_first_key_in_priority_order_witness:
  "locator params_S example_url = Inr (''S'', ''31113-1'') \<and>
   params_MS ''M'' = Some [''sw0001''] \<and> params_MS ''S'' = Some [''75192-1''] \<and>
   locator params_MS example_url = Inr (''S'', ''75192-1'')"
proof -
  have k: "(1::nat) < length item_keys" "item_keys ! 1 = ''S''" "item_keys ! 0 = ''P''"
    by (simp_all add: item_keys_def)
  have s: "params_S (item_keys ! 1) = Some (''31113-1'' # [])" "\<forall>j<1::nat. params_S (item_keys ! j) = None"
    using k by (simp_all add: params_S_def)
  have m: "params_MS (item_keys ! 1) = Some (''75192-1'' # [])" "\<forall>j<1::nat. params_MS (item_keys ! j) = None"
    using k by (simp_all add: params_MS_def)
  have ne: "''31113-1'' \<noteq> []" "''75192-1'' \<noteq> []" by simp_all
  from C3_first_key_in_priority_order[OF k(1) s(1) ne(1) s(2), of example_url] k(2)
  have a: "locator params_S example_url = Inr (''S'', ''31113-1'')" by simp
  from C3_first_key_in_priority_order[OF k(1) m(1) ne(2) m(2), of example_url] k(2)
  have b: "locator params_MS example_url = Inr (''S'', ''75192-1'')" by simp
  have c: "params_MS ''M'' = Some [''sw0001'']" "params_MS ''S'' = Some [''75192-1'']"
    by (simp_all add: params_MS_def)
  from a b c show ?thesis by blast
qed

text \<open>
  Claim C7. When none of the eight keys is in the dictionary, the call raises the
  \<open>ValueError\<close> of line 49 (the error the specification calls \<open>LocatorNotFoundError\<close>), and
  no URL has been requested.
\<close>

theorem C7_no_locator_no_request:
  assumes "\<forall>k\<in>set item_keys. params k = None"
  shows "scrape_bricklink_item fetch params url =
           (Inl (ValueError (''Could not extract item type and ID from URL: '' @ url)), [])"
proof -
  from detect_none[OF assms] have "locator params url =
     Inl (ValueError (''Could not extract item type and ID from URL: '' @ url))"
    by (simp add: locator_def bindE_Inr truthy_def)
  then show ?thesis by (simp add: scrape_bricklink_item_def)
qed

theorem C7_no_locator_no_request_witness:
  "params_X ''P'' = None \<and> params_X ''S'' = None \<and> params_X ''M'' = None \<and>
   params_X ''G'' = None \<and> params_X ''C'' = None \<and> params_X ''I'' = None \<and>
   params_X ''O'' = None \<and> params_X ''B'' = None \<and>
   scrape_bricklink_item three_boxes params_X ''https://www.bricklink.com/v2/catalog/catalogitem.page?X=1'' =
     (Inl (ValueError ''Could not extract item type and ID from URL: https://www.bricklink.com/v2/catalog/catalogitem.page?X=1''), [])"
proof -
  have h: "\<forall>k\<in>set item_keys. params_X k = None"
    by (simp add: item_keys_def params_X_def)
  from C7_no_locator_no_request[OF h, of three_boxes "''https://www.bricklink.com/v2/catalog/catalogitem.page?X=1''"]
  have "scrape_bricklink_item three_boxes params_X ''https://www.bricklink.com/v2/catalog/catalogitem.page?X=1'' =
     (Inl (ValueError ''Could not extract item type and ID from URL: https://www.bricklink.com/v2/catalog/catalogitem.page?X=1''), [])"
    by simp
  then show ?thesis by (simp add: params_X_def)
qed

subsection \<open>The price buckets\<close>

text \<open>
  Claim C4. When the locator is found, both pages are fetched and the selector finds fewer
  than four boxes on the price guide page, the call returns a summary whose four buckets are
  all \<open>None\<close>.
\<close>

theorem C4_fewer_than_four_boxes:
  assumes "locator params url = Inr (ty, ident)"
    and "fetch url = Inr soup"
    and "fetch (''https://www.bricklink.com/catalogPG.asp?'' @ ty @ ''='' @ ident) = Inr price_soup"
    and "length (price_boxes price_soup) < 4"
  shows "\<exists>s. fst (scrape_bricklink_item fetch params url) = Inr s \<and>
             six_month_new s = None \<and> six_month_used s = None \<and>
             current_new s = None \<and> current_used s = None"
proof -
  from assms(4) have "pricing_data (price_boxes price_soup) = Inr (None, None, None, None)"
    by (simp add: pricing_data_def)
  with assms(1,2,3) show ?thesis
    by (simp add: scrape_bricklink_item_def Let_def)
qed

theorem C4_fewer_than_four_boxes_witness:
  "locator params_S example_url = Inr (''S'', ''31113-1'') \<and>
   length (price_boxes (projr (three_boxes ''https://www.bricklink.com/catalogPG.asp?S=31113-1''))) < 4 \<and>
   (\<exists>s. fst (scrape_bricklink_item three_boxes params_S example_url) = Inr s \<and>
             six_month_new s = None \<and> six_month_used s = None \<and>
             current_new s = None \<and> current_used s = None)"
proof -
  have l: "locator params_S example_url = Inr (''S'', ''31113-1'')" by code_simp
  have f1: "three_boxes example_url = Inr \<lparr>title_text = Some '' Race Car Transporter '', weight_text = Some ''469.3g'',
                price_boxes = []\<rparr>" by (simp add: three_boxes_def)
  have f2: "three_boxes (''https://www.bricklink.com/catalogPG.asp?'' @ ''S'' @ ''='' @ ''31113-1'') = Inr \<lparr>title_text = None, weight_text = None,
                price_boxes = [''Times Sold: 12'', ''Times Sold: 3'', ''Total Lots: 5'']\<rparr>"
    by (simp add: three_boxes_def example_url_def)
  have n: "length (price_boxes \<lparr>title_text = None, weight_text = None,
                price_boxes = [''Times Sold: 12'', ''Times Sold: 3'', ''Total Lots: 5'']\<rparr>) < 4" by simp
  from C4_fewer_than_four_boxes[OF l f1 f2 n] l f2 show ?thesis by simp
qed

text \<open>
  Claim C5. A box whose text, in lower case, contains \<open>(unavailable)\<close> gives no bucket,
  whatever else the text holds. In the example after it the text also matches two of the patterns.
\<close>

theorem C5_unavailable_gives_no_bucket:
  assumes "contains ''(unavailable)'' (lower txt)"
  shows "extract_price_box txt = Inr None"
  using assms by (simp add: extract_price_box_def)

theorem C5_unavailable_gives_no_bucket_witness:
  "contains ''(unavailable)'' (lower ''Times Sold: 12 Min Price: USD 10.00 (Unavailable)'') \<and>
   re_search RE_TIMES_SOLD ''Times Sold: 12 Min Price: USD 10.00 (Unavailable)'' = Some [''12''] \<and>
   re_search RE_MIN_PRICE ''Times Sold: 12 Min Price: USD 10.00 (Unavailable)'' = Some [''USD'', ''10.00''] \<and>
   extract_price_box ''Times Sold: 12 Min Price: USD 10.00 (Unavailable)'' = Inr None"
proof -
  have h: "contains ''(unavailable)'' (lower ''Times Sold: 12 Min Price: USD 10.00 (Unavailable)'')"
    by code_simp
  have r: "re_search RE_TIMES_SOLD ''Times Sold: 12 Min Price: USD 10.00 (Unavailable)'' = Some [''12'']"
    by code_simp
  have q: "re_search RE_MIN_PRICE ''Times Sold: 12 Min Price: USD 10.00 (Unavailable)'' = Some [''USD'', ''10.00'']"
    by code_simp
  from C5_unavailable_gives_no_bucket[OF h] h r q show ?thesis by blast
qed

text \<open>
  Claim C8. A box without the marker in which none of the seven patterns matches gives
  \<open>None\<close>, not an empty record.
\<close>

theorem C8_no_field_gives_no_bucket:
  assumes "\<not> contains ''(unavailable)'' (lower txt)"
    and "re_search RE_TIMES_SOLD txt = None" and "re_search RE_TOTAL_LOTS txt = None"
    and "re_search RE_TOTAL_QTY txt = None" and "re_search RE_MIN_PRICE txt = None"
    and "re_search RE_AVG_PRICE txt = None" and "re_search RE_QTY_AVG_PRICE txt = None"
    and "re_search RE_MAX_PRICE txt = None"
  shows "extract_price_box txt = Inr None"
  using assms by (simp add: extract_price_box_def field_def bindE_Inr empty_data_def)

theorem C8_no_field_gives_no_bucket_witness:
  "\<not> contains ''(unavailable)'' (lower ''Last 6 Months Sales: New'') \<and>
   re_search RE_TIMES_SOLD ''Last 6 Months Sales: New'' = None \<and>
   re_search RE_TOTAL_LOTS ''Last 6 Months Sales: New'' = None \<and>
   re_search RE_TOTAL_QTY ''Last 6 Months Sales: New'' = None \<and>
   re_search RE_MIN_PRICE ''Last 6 Months Sales: New'' = None \<and>
   re_search RE_AVG_PRICE ''Last 6 Months Sales: New'' = None \<and>
   re_search RE_QTY_AVG_PRICE ''Last 6 Months Sales: New'' = None \<and>
   re_search RE_MAX_PRICE ''Last 6 Months Sales: New'' = None \<and>
   extract_price_box ''Last 6 Months Sales: New'' = Inr None"
proof -
  have h: "\<not> contains ''(unavailable)'' (lower ''Last 6 Months Sales: New'')" by code_simp
  have r: "re_search RE_TIMES_SOLD ''Last 6 Months Sales: New'' = None"
    "re_search RE_TOTAL_LOTS ''Last 6 Months Sales: New'' = None"
    "re_search RE_TOTAL_QTY ''Last 6 Months Sales: New'' = None"
    "re_search RE_MIN_PRICE ''Last 6 Months Sales: New'' = None"
    "re_search RE_AVG_PRICE ''Last 6 Months Sales: New'' = None"
    "re_search RE_QTY_AVG_PRICE ''Last 6 Months Sales: New'' = None"
    "re_search RE_MAX_PRICE ''Last 6 Months Sales: New'' = None"
    by code_simp+
  from C8_no_field_gives_no_bucket[OF h r] h r show ?thesis by blast
qed

subsection \<open>The average price and the quantity average price\<close>

text \<open>
  The pattern of the quantity average price is \<open>Qty \<close> followed by the pattern of the average
  price, so the second matches wherever the first does, four characters further.
\<close>

lemma lit_ci_append: "lit_ci (a @ b) = lit_ci a @ lit_ci b"
  by (simp add: lit_ci_def)

lemma price_pattern_append: "price_pattern (a @ b) = lit_ci a @ price_pattern b"
  by (simp add: price_pattern_def lit_ci_append)

lemma RE_QTY_AVG_PRICE_split: "RE_QTY_AVG_PRICE = lit_ci ''Qty '' @ RE_AVG_PRICE"
proof -
  have "''Qty Avg Price:'' = ''Qty '' @ ''Avg Price:''" by simp
  then show ?thesis
    unfolding RE_QTY_AVG_PRICE_def RE_AVG_PRICE_def by (simp only: price_pattern_append)
qed

lemma match_here_lit_ci:
  "match_here (lit_ci l @ rest) s =
     (if length l \<le> length s \<and> lower (take (length l) s) = lower l
      then match_here rest (drop (length l) s) else None)"
proof (induction l arbitrary: s)
  case Nil
  then show ?case by (simp add: lit_ci_def lower_def)
next
  case (Cons a l)
  have c: "lit_ci (a # l) = Chr (\<lambda>x. lower_char x = lower_char a) # lit_ci l"
    by (simp add: lit_ci_def)
  show ?case
  proof (cases s)
    case Nil
    then show ?thesis by (simp add: c)
  next
    case (Cons x t)
    with Cons.IH[of t] show ?thesis by (auto simp: c lower_def)
  qed
qed

lemma match_lit_ci_occurs:
  assumes "match_here (lit_ci l @ rest) (drop i s) = Some gs" and "l \<noteq> []"
  shows "occurs_at l s i \<and> match_here rest (drop (i + length l) s) = Some gs"
proof -
  from assms(1) have a: "length l \<le> length (drop i s)"
    and b: "lower (take (length l) (drop i s)) = lower l"
    and c: "match_here rest (drop (length l) (drop i s)) = Some gs"
    unfolding match_here_lit_ci by (simp_all split: if_splits)
  from a assms(2) have "i + length l \<le> length s" by (cases l) simp_all
  with b c show ?thesis by (simp add: occurs_at_def add.commute)
qed

lemma occurs_match_lit_ci:
  assumes "occurs_at l s i"
  shows "match_here (lit_ci l @ rest) (drop i s) = match_here rest (drop (i + length l) s)"
proof -
  from assms have a0: "i + length l \<le> length s"
    and b: "lower (take (length l) (drop i s)) = lower l"
    by (simp_all add: occurs_at_def)
  from a0 have a: "length l \<le> length (drop i s)" by simp
  have "drop (length l) (drop i s) = drop (i + length l) s" by (simp add: add.commute)
  with a b show ?thesis unfolding match_here_lit_ci by simp
qed

text \<open>\<open>re_search\<close> returns the match at the leftmost position that has one.\<close>

lemma re_search_position:
  "re_search pat s = Some gs \<Longrightarrow>
     \<exists>i\<le>length s. match_here pat (drop i s) = Some gs \<and> (\<forall>j<i. match_here pat (drop j s) = None)"
proof (induction s)
  case Nil
  then show ?case by simp
next
  case (Cons c cs)
  show ?case
  proof (cases "match_here pat (c # cs)")
    case (Some g)
    with Cons.prems have "match_here pat (drop 0 (c # cs)) = Some gs" by simp
    then show ?thesis by blast
  next
    case None
    with Cons.prems have "re_search pat cs = Some gs" by simp
    from Cons.IH[OF this] obtain i where i: "i \<le> length cs" "match_here pat (drop i cs) = Some gs"
      "\<forall>j<i. match_here pat (drop j cs) = None" by blast
    have "\<forall>j<Suc i. match_here pat (drop j (c # cs)) = None"
    proof (intro allI impI)
      fix j assume "j < Suc i"
      then show "match_here pat (drop j (c # cs)) = None"
        using None i(3) by (cases j) simp_all
    qed
    with i(1,2) have "Suc i \<le> length (c # cs) \<and> match_here pat (drop (Suc i) (c # cs)) = Some gs \<and>
      (\<forall>j<Suc i. match_here pat (drop j (c # cs)) = None)" by simp
    then show ?thesis by blast
  qed
qed

lemma re_search_leftmost:
  "i \<le> length s \<Longrightarrow> match_here pat (drop i s) = Some gs \<Longrightarrow>
   \<forall>j<i. match_here pat (drop j s) = None \<Longrightarrow> re_search pat s = Some gs"
proof (induction s arbitrary: i)
  case Nil
  then show ?case by simp
next
  case (Cons c cs)
  show ?case
  proof (cases i)
    case 0
    with Cons.prems show ?thesis by simp
  next
    case (Suc i')
    with Cons.prems(3) have n: "match_here pat (drop 0 (c # cs)) = None" by blast
    from Cons.prems Suc have a: "i' \<le> length cs" "match_here pat (drop i' cs) = Some gs" by simp_all
    have b: "\<forall>j<i'. match_here pat (drop j cs) = None"
    proof (intro allI impI)
      fix j assume "j < i'"
      then have "Suc j < i" using Suc by simp
      with Cons.prems(3) have "match_here pat (drop (Suc j) (c # cs)) = None" by blast
      then show "match_here pat (drop j cs) = None" by simp
    qed
    from Cons.IH[OF a b] n show ?thesis by simp
  qed
qed

lemma avg_inside_qtyD:
  assumes "avg_inside_qty s" and "occurs_at ''Avg Price:'' s i"
  shows "4 \<le> i \<and> occurs_at ''Qty '' s (i - 4)"
proof -
  from assms(2) have "i < length s" by (simp add: occurs_at_def)
  with assms show ?thesis by (simp add: avg_inside_qty_def list_all_iff)
qed

text \<open>
  When the text has no \<open>Avg Price:\<close> of its own, the leftmost match of the average price
  pattern is the one inside the leftmost match of the quantity average price pattern.
\<close>

lemma avg_search_eq_qty_search:
  assumes "avg_inside_qty s" and "re_search RE_QTY_AVG_PRICE s = Some gs"
  shows "re_search RE_AVG_PRICE s = Some gs"
proof -
  have avg: "RE_AVG_PRICE = lit_ci ''Avg Price:'' @ price_pattern []"
    unfolding RE_AVG_PRICE_def using price_pattern_append[of "''Avg Price:''" "[]"] by simp
  from re_search_position[OF assms(2)] obtain i
    where i: "i \<le> length s" "match_here RE_QTY_AVG_PRICE (drop i s) = Some gs"
      "\<forall>j<i. match_here RE_QTY_AVG_PRICE (drop j s) = None" by blast
  from i(2) have "occurs_at ''Qty '' s i \<and> match_here RE_AVG_PRICE (drop (i + length ''Qty '') s) = Some gs"
    unfolding RE_QTY_AVG_PRICE_split by (rule match_lit_ci_occurs) simp
  moreover have "i + length ''Qty '' = i + 4" by simp
  ultimately have q: "occurs_at ''Qty '' s i"
    and m: "match_here RE_AVG_PRICE (drop (i + 4) s) = Some gs"
    by (simp_all only:)
  from q have le: "i + 4 \<le> length s" by (simp add: occurs_at_def)
  have first: "\<forall>j<i + 4. match_here RE_AVG_PRICE (drop j s) = None"
  proof (intro allI impI)
    fix j assume j: "j < i + 4"
    show "match_here RE_AVG_PRICE (drop j s) = None"
    proof (cases "match_here RE_AVG_PRICE (drop j s)")
      case None
      then show ?thesis .
    next
      case (Some g)
      then have "match_here (lit_ci ''Avg Price:'' @ price_pattern []) (drop j s) = Some g"
        by (simp only: avg)
      then have "occurs_at ''Avg Price:'' s j \<and>
          match_here (price_pattern []) (drop (j + length ''Avg Price:'') s) = Some g"
        by (rule match_lit_ci_occurs) simp
      then have o: "occurs_at ''Avg Price:'' s j" by simp
      from avg_inside_qtyD[OF assms(1) o] have k: "4 \<le> j" "occurs_at ''Qty '' s (j - 4)" by simp_all
      have "j - 4 + length ''Qty '' = j" using k(1) by simp
      with occurs_match_lit_ci[OF k(2), of RE_AVG_PRICE]
      have "match_here RE_QTY_AVG_PRICE (drop (j - 4) s) = match_here RE_AVG_PRICE (drop j s)"
        by (simp only: RE_QTY_AVG_PRICE_split)
      with Some have "match_here RE_QTY_AVG_PRICE (drop (j - 4) s) = Some g" by simp
      moreover from j k(1) have "j - 4 < i" by simp
      ultimately show ?thesis using i(3) by simp
    qed
  qed
  from re_search_leftmost[OF le m first] show ?thesis .
qed

text \<open>
  Claim C10, as amended. Take a box without the marker in which the quantity average price
  pattern matches, with an amount that \<open>float\<close> accepts, and in which every \<open>Avg Price:\<close>,
  letter case apart, is the one inside \<open>Qty Avg Price:\<close>. Then the average price pattern
  matches with the same groups; and when the other fields that match are converted without
  an exception (counts of at most 4300 digits, a minimum and a maximum price that \<open>float\<close>
  accepts), the bucket returned has the same money as average price and as quantity average
  price.
\<close>

theorem C10_avg_price_from_qty_avg_price:
  assumes "\<not> contains ''(unavailable)'' (lower s)"
    and "re_search RE_QTY_AVG_PRICE s = Some gs"
    and "avg_inside_qty s"
    and "money_of gs = Inr m"
    and "field RE_TIMES_SOLD s count_of = Inr sold"
    and "field RE_TOTAL_LOTS s count_of = Inr lots"
    and "field RE_TOTAL_QTY s count_of = Inr qty"
    and "field RE_MIN_PRICE s money_of = Inr mn"
    and "field RE_MAX_PRICE s money_of = Inr mx"
  shows "re_search RE_AVG_PRICE s = Some gs \<and>
         extract_price_box s =
           Inr (Some \<lparr>times_sold = sold, total_lots = lots, total_qty = qty, min_price = mn,
                      avg_price = Some m, qty_avg_price = Some m, max_price = mx\<rparr>)"
proof -
  from avg_search_eq_qty_search[OF assms(3,2)] have a: "re_search RE_AVG_PRICE s = Some gs" .
  from a assms(4) have av: "field RE_AVG_PRICE s money_of = Inr (Some m)"
    by (simp add: field_def bindE_Inr)
  from assms(2,4) have qa: "field RE_QTY_AVG_PRICE s money_of = Inr (Some m)"
    by (simp add: field_def bindE_Inr)
  let ?d = "\<lparr>times_sold = sold, total_lots = lots, total_qty = qty, min_price = mn,
             avg_price = Some m, qty_avg_price = Some m, max_price = mx\<rparr>"
  have ne: "?d \<noteq> empty_data" by (simp add: empty_data_def)
  from assms(1,5,6,7,8) av qa assms(9) ne
  have "extract_price_box s = Inr (Some ?d)"
    by (simp add: extract_price_box_def bindE_Inr Let_def)
  with a show ?thesis by simp
qed

theorem C10_avg_price_from_qty_avg_price_witness:
  "\<not> contains ''(unavailable)'' (lower qty_avg_box) \<and>
   re_search RE_QTY_AVG_PRICE qty_avg_box = Some [''USD'', ''1,234.50''] \<and>
   avg_inside_qty qty_avg_box \<and>
   re_search RE_AVG_PRICE qty_avg_box = Some [''USD'', ''1,234.50''] \<and>
   extract_price_box qty_avg_box =
     Inr (Some \<lparr>times_sold = None, total_lots = None, total_qty = Some 7, min_price = None,
                avg_price = Some \<lparr>currency = ''USD'', amount = \<lparr>mantissa = 123450, scale = 2\<rparr>\<rparr>,
                qty_avg_price = Some \<lparr>currency = ''USD'', amount = \<lparr>mantissa = 123450, scale = 2\<rparr>\<rparr>,
                max_price = None\<rparr>)"
proof -
  have h1: "\<not> contains ''(unavailable)'' (lower qty_avg_box)" by code_simp
  have h2: "re_search RE_QTY_AVG_PRICE qty_avg_box = Some [''USD'', ''1,234.50'']" by code_simp
  have h3: "avg_inside_qty qty_avg_box" by code_simp
  have h4: "money_of [''USD'', ''1,234.50''] =
     Inr \<lparr>currency = ''USD'', amount = \<lparr>mantissa = 123450, scale = 2\<rparr>\<rparr>" by code_simp
  have h5: "field RE_TIMES_SOLD qty_avg_box count_of = Inr None" by code_simp
  have h6: "field RE_TOTAL_LOTS qty_avg_box count_of = Inr None" by code_simp
  have h7: "field RE_TOTAL_QTY qty_avg_box count_of = Inr (Some 7)" by code_simp
  have h8: "field RE_MIN_PRICE qty_avg_box money_of = Inr None" by code_simp
  have h9: "field RE_MAX_PRICE qty_avg_box money_of = Inr None" by code_simp
  from C10_avg_price_from_qty_avg_price[OF h1 h2 h3 h4 h5 h6 h7 h8 h9] h1 h2 h3
  show ?thesis by blast
qed

text \<open>
  Claim C10 as stated fails. Each of the three boxes has a line with a quantity average
  price and no other \<open>Avg Price:\<close> in that letter case. The first has the marker and gives no
  bucket at all. The second has a minimum price that \<open>float\<close> refuses, and the call raises.
  The third has an average price written in lower case, which the pattern, matching letter
  case apart, finds first: the bucket has 6.00 EUR as average price and 5.00 USD as quantity
  average price.
\<close>

theorem C10_no_bucket_or_other_avg_price:
  "re_search RE_QTY_AVG_PRICE qty_avg_unavailable = Some [''USD'', ''5.00''] \<and>
   avg_inside_qty qty_avg_unavailable \<and>
   extract_price_box qty_avg_unavailable = Inr None \<and>
   re_search RE_QTY_AVG_PRICE qty_avg_bad_min = Some [''USD'', ''5.00''] \<and>
   avg_inside_qty qty_avg_bad_min \<and>
   extract_price_box qty_avg_bad_min = Inl (ValueError ''could not convert string to float'') \<and>
   re_search RE_QTY_AVG_PRICE qty_avg_lower_avg = Some [''USD'', ''5.00''] \<and>
   \<not> contains ''Avg Price:'' ''avg price: EUR 6.00'' \<and>
   extract_price_box qty_avg_lower_avg =
     Inr (Some \<lparr>times_sold = None, total_lots = None, total_qty = None, min_price = None,
                avg_price = Some \<lparr>currency = ''EUR'', amount = \<lparr>mantissa = 600, scale = 2\<rparr>\<rparr>,
                qty_avg_price = Some \<lparr>currency = ''USD'', amount = \<lparr>mantissa = 500, scale = 2\<rparr>\<rparr>,
                max_price = None\<rparr>)"
  by code_simp

end
